theory Spec2Isabelle
  imports Main
begin

section \<open>JavaScript strings\<close>

text \<open>
  A JavaScript string is a sequence of UTF-16 code units. A code unit is modelled as a
  natural number, so that the bullet U+2022, the box-drawing character U+2500 and the
  typeface names of the style table are single elements, as they are for
  \<^verbatim>\<open>length\<close>, \<^verbatim>\<open>substring\<close> and \<^verbatim>\<open>startsWith\<close> in the source.
  ASCII literals are written through \<open>js\<close>.
\<close>

type_synonym jsstring = "nat list"

definition js :: "string \<Rightarrow> jsstring" where
  "js s = map of_char s"

text \<open>
  The white space of \<^verbatim>\<open>String.prototype.trim\<close> and of the regular expression
  class \<^verbatim>\<open>\s\<close>: TAB, LF, VT, FF, CR, SP, NBSP, U+1680, U+2000..U+200A, LS, PS,
  U+202F, U+205F, U+3000 and the byte order mark.
\<close>

definition isWhiteSpace :: "nat \<Rightarrow> bool" where
  "isWhiteSpace c =
     (c = 9 \<or> c = 10 \<or> c = 11 \<or> c = 12 \<or> c = 13 \<or> c = 32 \<or> c = 160 \<or> c = 5760
      \<or> (8192 \<le> c \<and> c \<le> 8202) \<or> c = 8232 \<or> c = 8233 \<or> c = 8239 \<or> c = 8287
      \<or> c = 12288 \<or> c = 65279)"

text \<open>The line terminators, which the regular expression atom \<^verbatim>\<open>.\<close> does not match.\<close>

definition isLineTerminator :: "nat \<Rightarrow> bool" where
  "isLineTerminator c = (c = 10 \<or> c = 13 \<or> c = 8232 \<or> c = 8233)"

definition isDot :: "nat \<Rightarrow> bool" where
  "isDot c = (\<not> isLineTerminator c)"

text \<open>The class \<^verbatim>\<open>\d\<close>: the ASCII digits.\<close>

definition isDigit :: "nat \<Rightarrow> bool" where
  "isDigit c = (48 \<le> c \<and> c \<le> 57)"

definition trim :: "jsstring \<Rightarrow> jsstring" where
  "trim s = rev (dropWhile isWhiteSpace (rev (dropWhile isWhiteSpace s)))"

text \<open>\<^verbatim>\<open>s.split('\n')\<close>: the pieces between the separators, one piece for a string without any.\<close>

fun split :: "nat \<Rightarrow> jsstring \<Rightarrow> jsstring list" where
  "split sep [] = [[]]"
| "split sep (c # cs) =
     (if c = sep then [] # split sep cs
      else (let r = split sep cs in (c # hd r) # tl r))"

text \<open>\<^verbatim>\<open>lines.join('\n')\<close>.\<close>

fun join :: "nat \<Rightarrow> jsstring list \<Rightarrow> jsstring" where
  "join sep [] = []"
| "join sep [l] = l"
| "join sep (l # ls) = l @ sep # join sep ls"

text \<open>\<^verbatim>\<open>s.startsWith(p)\<close>, \<^verbatim>\<open>s.substring(n)\<close> and \<^verbatim>\<open>s.slice(a, b)\<close> for \<open>a \<le> b\<close>.\<close>

definition startsWith :: "jsstring \<Rightarrow> jsstring \<Rightarrow> bool" where
  "startsWith s p = (take (length p) s = p)"

definition substring :: "jsstring \<Rightarrow> nat \<Rightarrow> jsstring" where
  "substring s n = drop n s"

definition slice :: "jsstring \<Rightarrow> nat \<Rightarrow> nat \<Rightarrow> jsstring" where
  "slice s a b = take (b - a) (drop a s)"

text \<open>\<^verbatim>\<open>s[i]\<close>, which is \<^verbatim>\<open>undefined\<close> past the end.\<close>

definition charAt :: "jsstring \<Rightarrow> nat \<Rightarrow> nat option" where
  "charAt s i = (if i < length s then Some (s ! i) else None)"

text \<open>The decimal digits of a number, as a template literal prints a non-negative integer.\<close>

fun numberToString :: "nat \<Rightarrow> jsstring" where
  "numberToString n =
     (if n < 10 then [48 + n] else numberToString (n div 10) @ [48 + n mod 10])"

declare numberToString.simps [simp del]

text \<open>
  \<^verbatim>\<open>parseInt\<close> on a string of decimal digits. The source only tests the result against
  \<^verbatim>\<open>null\<close>, so the rounding of a number past \<open>2^53\<close> plays no part.
\<close>

definition parseInt :: "jsstring \<Rightarrow> nat" where
  "parseInt ds = foldl (\<lambda>acc d. 10 * acc + (d - 48)) 0 ds"

section \<open>The nested-list normalizer\<close>

text \<open>
  \<^verbatim>\<open>trimmedLine.match(/^(\d+)\.\s+\*\*(.+)\*\*$/)\<close>, returning the first group. The
  digits are followed by a dot and the white space by an asterisk, so each greedy
  repetition takes its longest run; the second group is what lies between the opening
  and the last two asterisks, at least one character and no line terminator.
\<close>

definition mainListMatch :: "jsstring \<Rightarrow> jsstring option" where
  "mainListMatch s =
     (let ds = takeWhile isDigit s; r1 = dropWhile isDigit s in
      if ds = [] then None
      else (case r1 of
          [] \<Rightarrow> None
        | c # r2 \<Rightarrow>
            if c \<noteq> 46 then None
            else (let ws = takeWhile isWhiteSpace r2; r3 = dropWhile isWhiteSpace r2 in
              if ws = [] then None
              else if take 2 r3 \<noteq> [42, 42] then None
              else (let r4 = drop 2 r3; body = take (length r4 - 2) r4 in
                if 3 \<le> length r4 \<and> drop (length r4 - 2) r4 = [42, 42] \<and> list_all isDot body
                then Some ds else None))))"

text \<open>
  \<^verbatim>\<open>trimmedLine.match(/^-\s+(.+)$/)\<close>, returning the first group. The white space takes
  its longest run; when nothing follows it, the expression backtracks and gives the last
  white-space character to the group.
\<close>

definition nestedDashMatch :: "jsstring \<Rightarrow> jsstring option" where
  "nestedDashMatch s =
     (case s of
        [] \<Rightarrow> None
      | c # r \<Rightarrow>
          if c \<noteq> 45 then None
          else (let ws = takeWhile isWhiteSpace r; t = dropWhile isWhiteSpace r in
            if ws = [] then None
            else if t \<noteq> [] then (if list_all isDot t then Some t else None)
            else if 2 \<le> length ws \<and> isDot (last ws) then Some [last ws] else None))"

record pp_state =
  resultLines :: "jsstring list"
  currentMainListItem :: "nat option"
  processingNestedList :: bool

text \<open>One iteration of the loop of \<^verbatim>\<open>preprocessMarkdown\<close> over the lines.\<close>

definition preprocessLine :: "jsstring \<Rightarrow> pp_state \<Rightarrow> pp_state" where
  "preprocessLine line st =
     (let trimmedLine = trim line;
          mainMatch = mainListMatch trimmedLine;
          dashMatch = nestedDashMatch trimmedLine in
      if mainMatch \<noteq> None then
        st\<lparr>currentMainListItem := Some (parseInt (the mainMatch)),
           processingNestedList := False,
           resultLines := resultLines st @ [line]\<rparr>
      else if dashMatch \<noteq> None \<and> currentMainListItem st \<noteq> None then
        st\<lparr>processingNestedList := True,
           resultLines := resultLines st @ [js ''   - '' @ the dashMatch]\<rparr>
      else
        st\<lparr>processingNestedList := (if trimmedLine = [] then False else processingNestedList st),
           resultLines := resultLines st @ [line]\<rparr>)"

fun preprocessLoop :: "jsstring list \<Rightarrow> pp_state \<Rightarrow> pp_state" where
  "preprocessLoop [] st = st"
| "preprocessLoop (line # lines) st = preprocessLoop lines (preprocessLine line st)"

definition preprocessMarkdown :: "jsstring \<Rightarrow> jsstring" where
  "preprocessMarkdown markdown =
     join 10 (resultLines (preprocessLoop (split 10 markdown)
       \<lparr>resultLines = [], currentMainListItem = None, processingNestedList = False\<rparr>))"

section \<open>The style table and the document model\<close>

text \<open>
  A style entry of \<^verbatim>\<open>STYLES\<close>: typeface, size in half-points, and the weight where the
  entry has one (only \<^verbatim>\<open>h3\<close> does).
\<close>

record style =
  style_font :: jsstring
  style_size :: nat
  style_bold :: "bool option"

text \<open>The typeface names are Chinese; they are given by their code units.\<close>

definition STYLES_normal :: style where
  "STYLES_normal =
     \<lparr>style_font = [0x4EFF, 0x5B8B] @ js ''_GB2312'', style_size = 32, style_bold = None\<rparr>"

definition STYLES_h1 :: style where
  "STYLES_h1 =
     \<lparr>style_font = [0x5C0F, 0x6807, 0x5B8B, 0x4F53], style_size = 36, style_bold = None\<rparr>"

definition STYLES_h2 :: style where
  "STYLES_h2 =
     \<lparr>style_font = [0x6977, 0x4F53] @ js ''_GB2312'', style_size = 32, style_bold = None\<rparr>"

definition STYLES_h3 :: style where
  "STYLES_h3 =
     \<lparr>style_font = [0x4EFF, 0x5B8B] @ js ''_GB2312'', style_size = 32, style_bold = Some True\<rparr>"

text \<open>
  The options of a \<^verbatim>\<open>TextRun\<close> of the document library; an option the source does not
  pass is \<open>None\<close>.
\<close>

record text_run =
  run_text :: "jsstring option"
  run_font :: "jsstring option"
  run_size :: "nat option"
  run_color :: "jsstring option"
  run_bold :: "bool option"
  run_italics :: "bool option"
  run_strike :: "bool option"
  run_break :: "nat option"

definition emptyRun :: text_run where
  "emptyRun =
     \<lparr>run_text = None, run_font = None, run_size = None, run_color = None, run_bold = None,
      run_italics = None, run_strike = None, run_break = None\<rparr>"

text \<open>
  A length of the page layout. The source computes most of them with the library's
  \<^verbatim>\<open>convertInchesToTwip\<close>, a floating-point routine that is not interpreted here.
  \<open>InchesToTwip h\<close> stands for its result on the decimal literal of \<open>h\<close> hundredths as
  the source writes it (\<^verbatim>\<open>0.3\<close> is \<open>InchesToTwip 30\<close>). \<open>InchesToTwipTimes h k\<close> stands
  for its result on the floating-point product of that literal and the integer \<open>k\<close>; the
  product is not interpreted either, since in doubles it is not the exact one
  (\<^verbatim>\<open>0.3 * 9\<close> is \<^verbatim>\<open>2.6999999999999997\<close>). \<open>Twips n\<close> is a number the source writes
  directly.
\<close>

datatype twips = Twips nat | InchesToTwip nat | InchesToTwipTimes nat nat

datatype line_rule = EXACT

datatype alignment = AlignBoth | AlignLeft | AlignCenter

datatype heading_level = HEADING_1 | HEADING_2 | HEADING_3 | HEADING_4 | HEADING_5 | HEADING_6

record spacing =
  spacing_before :: "twips option"
  spacing_after :: "twips option"
  spacing_line :: "nat option"
  spacing_lineRule :: "line_rule option"

record indent =
  indent_left :: "twips option"
  indent_right :: "twips option"
  indent_hanging :: "twips option"
  indent_firstLine :: "twips option"

record border =
  border_size :: nat
  border_color :: jsstring

record para =
  par_children :: "text_run list"
  par_heading :: "heading_level option"
  par_spacing :: "spacing option"
  par_alignment :: "alignment option"
  par_indent :: "indent option"
  par_border_left :: "border option"

definition emptyParagraph :: para where
  "emptyParagraph =
     \<lparr>par_children = [], par_heading = None, par_spacing = None, par_alignment = None,
      par_indent = None, par_border_left = None\<rparr>"

record table_cell =
  cell_children :: "para list"
  cell_verticalAlign :: "jsstring option"

text \<open>
  A table: its width in percent, the border used on the four edges and the two inner
  separators, and the rows of cells.
\<close>

record table =
  table_width_percent :: nat
  table_borders :: border
  table_rows :: "table_cell list list"

datatype block = Paragraph para | Table table

datatype document = Document "block list list"

section \<open>The inline run parser\<close>

record inline_state =
  runs :: "text_run list"
  currentText :: jsstring
  isStrong :: bool
  isEm :: bool
  isDel :: bool
  isCode :: bool

definition addCurrentText :: "inline_state \<Rightarrow> inline_state" where
  "addCurrentText st =
     (if currentText st \<noteq> [] then
        st\<lparr>runs := runs st @
             [\<lparr>run_text = Some (currentText st),
               run_font = Some (if isCode st then js ''Courier New'' else style_font STYLES_normal),
               run_size = Some (if isCode st then 24 else style_size STYLES_normal),
               run_color = Some (js ''000000''),
               run_bold = Some (isStrong st),
               run_italics = Some (isEm st),
               run_strike = Some (isDel st),
               run_break = None\<rparr>],
           currentText := []\<rparr>
      else st)"

text \<open>The \<^verbatim>\<open>while\<close> loop of \<^verbatim>\<open>parseInlineContent\<close>, at index \<open>i\<close>.\<close>

function parseLoop :: "jsstring \<Rightarrow> nat \<Rightarrow> inline_state \<Rightarrow> inline_state" where
  "parseLoop content i st =
     (if i < length content then
        (if content ! i = 96 then
           parseLoop content (i + 1) ((addCurrentText st)\<lparr>isCode := \<not> isCode st\<rparr>)
         else if slice content i (i + 3) = js ''***'' then
           parseLoop content (i + 3)
             ((addCurrentText st)\<lparr>isStrong := \<not> isStrong st, isEm := \<not> isEm st\<rparr>)
         else if slice content i (i + 2) = js ''**'' then
           parseLoop content (i + 2) ((addCurrentText st)\<lparr>isStrong := \<not> isStrong st\<rparr>)
         else if slice content i (i + 2) = js ''~~'' then
           parseLoop content (i + 2) ((addCurrentText st)\<lparr>isDel := \<not> isDel st\<rparr>)
         else if content ! i = 42 \<and> charAt content (i + 1) \<noteq> Some 42 then
           parseLoop content (i + 1) ((addCurrentText st)\<lparr>isEm := \<not> isEm st\<rparr>)
         else
           parseLoop content (i + 1) (st\<lparr>currentText := currentText st @ [content ! i]\<rparr>))
      else st)"
  by pat_completeness auto
termination
  by (relation "measure (\<lambda>(content, i, st). length content - i)") auto

declare parseLoop.simps [simp del]

definition parseInlineContent :: "jsstring \<Rightarrow> text_run list" where
  "parseInlineContent content =
     runs (addCurrentText (parseLoop content 0
       \<lparr>runs = [], currentText = [], isStrong = False, isEm = False, isDel = False,
        isCode = False\<rparr>))"

section \<open>Tokens\<close>

text \<open>
  The token tree of the markdown tokenizer, an external library. Only the fields the
  source reads are kept: a heading's depth and text, the text of a paragraph and of a
  code block, the cell texts of a table, a list's \<^verbatim>\<open>ordered\<close>, \<^verbatim>\<open>start\<close> and
  \<^verbatim>\<open>items\<close>, an item's text and sub-tokens, a blockquote's sub-tokens. Any other kind
  is \<open>TokOther\<close> with its type name. An absent \<^verbatim>\<open>tokens\<close> array is the empty list,
  an absent \<^verbatim>\<open>ordered\<close> is \<open>False\<close>, an absent item text is the empty string: the
  source treats them alike.
\<close>

datatype token =
    TokHeading nat jsstring
  | TokParagraph jsstring
  | TokCode jsstring
  | TokTable "jsstring list" "jsstring list list"
  | TokList list_token
  | TokBlockquote "token list"
  | TokHr
  | TokOther jsstring
and list_token = ListToken bool "nat option" "list_item list"
and list_item = ListItem jsstring "token list"

section \<open>The list renderer\<close>

definition createListItemParagraph :: "jsstring \<Rightarrow> nat \<Rightarrow> bool \<Rightarrow> nat option \<Rightarrow> para" where
  "createListItemParagraph text level ordered index =
     (let bullet = (if ordered
                    then (case index of Some n \<Rightarrow> numberToString n | None \<Rightarrow> js ''undefined'')
                         @ js ''. ''
                    else [0x2022, 32]);
          rs = parseInlineContent (trim text) in
      emptyParagraph\<lparr>
        par_children :=
          emptyRun\<lparr>run_text := Some bullet,
                   run_font := Some (style_font STYLES_normal),
                   run_size := Some (style_size STYLES_normal),
                   run_color := Some (js ''000000''),
                   run_bold := Some ordered\<rparr> # rs,
        par_indent := Some
          \<lparr>indent_left = Some (InchesToTwipTimes 30 (level + 1)),
           indent_right = None,
           indent_hanging = Some (if ordered then InchesToTwip 30 else InchesToTwip 20),
           indent_firstLine = None\<rparr>,
        par_spacing := Some
          \<lparr>spacing_before = Some (if 0 < level then InchesToTwip 2 else InchesToTwip 5),
           spacing_after = Some (if 0 < level then InchesToTwip 2 else InchesToTwip 5),
           spacing_line = Some 360,
           spacing_lineRule = Some EXACT\<rparr>\<rparr>)"

text \<open>
  \<^verbatim>\<open>processNestedList\<close> appends to the caller's array \<^verbatim>\<open>children\<close>; the array is passed
  in and returned. \<open>processItems\<close> is its loop over the items, with the running
  \<^verbatim>\<open>index\<close>, and \<open>processItemTokens\<close> the inner loop over an item's sub-tokens.
\<close>

fun processNestedList :: "block list \<Rightarrow> list_token \<Rightarrow> nat \<Rightarrow> jsstring \<Rightarrow> block list"
and processItems ::
  "block list \<Rightarrow> bool \<Rightarrow> nat \<Rightarrow> nat \<Rightarrow> jsstring \<Rightarrow> list_item list \<Rightarrow> block list"
and processItemTokens :: "block list \<Rightarrow> nat \<Rightarrow> jsstring \<Rightarrow> token list \<Rightarrow> block list"
where
  "processNestedList children (ListToken ordered start items) level parentBullet =
     processItems children ordered (case start of Some s \<Rightarrow> s | None \<Rightarrow> 1) level parentBullet
       items"
| "processItems children ordered index level parentBullet [] = children"
| "processItems children ordered index level parentBullet (ListItem itemText itemTokens # rest) =
     (let children1 =
            (if trim itemText \<noteq> [] then
               children @
                 [Paragraph (createListItemParagraph
                    (if 0 < level \<and> parentBullet \<noteq> [] \<and> startsWith itemText parentBullet
                     then trim (substring itemText (length parentBullet))
                     else itemText)
                    level ordered (if ordered then Some index else None))]
             else children);
          currentBullet = (if ordered then numberToString index @ js ''. '' else []);
          index1 = (if ordered then index + 1 else index)
      in processItems (processItemTokens children1 (level + 1) currentBullet itemTokens)
           ordered index1 level parentBullet rest)"
| "processItemTokens children level bullet [] = children"
| "processItemTokens children level bullet (TokList subToken # rest) =
     processItemTokens (processNestedList children subToken level bullet) level bullet rest"
| "processItemTokens children level bullet (_ # rest) =
     processItemTokens children level bullet rest"

section \<open>The block renderer\<close>

definition getHeadingStyle :: "nat \<Rightarrow> style" where
  "getHeadingStyle level =
     (if level = 1 then STYLES_h1
      else if level = 2 then STYLES_h2
      else if level = 3 then STYLES_h3
      else STYLES_normal)"

text \<open>\<^verbatim>\<open>headingMap[depth] || HeadingLevel.HEADING_1\<close>.\<close>

definition headingMap :: "nat \<Rightarrow> heading_level" where
  "headingMap depth =
     (if depth = 2 then HEADING_2
      else if depth = 3 then HEADING_3
      else if depth = 4 then HEADING_4
      else if depth = 5 then HEADING_5
      else if depth = 6 then HEADING_6
      else HEADING_1)"

definition blackBorder :: border where
  "blackBorder = \<lparr>border_size = 1, border_color = js ''000000''\<rparr>"

definition createTableFromMarkdown :: "jsstring list \<Rightarrow> jsstring list list \<Rightarrow> table" where
  "createTableFromMarkdown header rows =
     \<lparr>table_width_percent = 100,
      table_borders = blackBorder,
      table_rows =
        map (\<lambda>cell.
          \<lparr>cell_children =
             [emptyParagraph\<lparr>
                par_children :=
                  [emptyRun\<lparr>run_text := Some cell,
                            run_font := Some (style_font STYLES_normal),
                            run_size := Some (style_size STYLES_normal),
                            run_color := Some (js ''000000''),
                            run_bold := Some True\<rparr>],
                par_alignment := Some AlignCenter\<rparr>],
           cell_verticalAlign = Some (js ''center'')\<rparr>) header
        # map (\<lambda>row. map (\<lambda>cell.
          \<lparr>cell_children =
             [emptyParagraph\<lparr>
                par_children :=
                  [emptyRun\<lparr>run_text := Some cell,
                            run_font := Some (style_font STYLES_normal),
                            run_size := Some (style_size STYLES_normal),
                            run_color := Some (js ''000000'')\<rparr>]\<rparr>],
           cell_verticalAlign = None\<rparr>) row) rows\<rparr>"

definition createBlockquoteParagraph :: "jsstring \<Rightarrow> para" where
  "createBlockquoteParagraph text =
     emptyParagraph\<lparr>
       par_children :=
         [emptyRun\<lparr>run_text := Some text,
                   run_font := Some (style_font STYLES_normal),
                   run_size := Some (style_size STYLES_normal),
                   run_color := Some (js ''000000''),
                   run_italics := Some True\<rparr>],
       par_indent := Some
         \<lparr>indent_left = Some (InchesToTwip 50), indent_right = Some (InchesToTwip 50),
          indent_hanging = None, indent_firstLine = None\<rparr>,
       par_spacing := Some
         \<lparr>spacing_before = Some (InchesToTwip 10), spacing_after = Some (InchesToTwip 10),
          spacing_line = Some 360, spacing_lineRule = None\<rparr>,
       par_border_left := Some \<lparr>border_size = 3, border_color = js ''808080''\<rparr>\<rparr>"

text \<open>The runs of a code block: each line, and a break after every line but the last.\<close>

fun codeRuns :: "jsstring list \<Rightarrow> text_run list" where
  "codeRuns [] = []"
| "codeRuns (line # rest) =
     emptyRun\<lparr>run_text := Some line, run_font := Some (js ''Courier New''),
              run_size := Some 24, run_color := Some (js ''000000'')\<rparr>
     # (if rest \<noteq> [] then [emptyRun\<lparr>run_break := Some 1\<rparr>] else [])
     @ codeRuns rest"

text \<open>The paragraphs of a blockquote: one for each sub-token that is a paragraph.\<close>

fun blockquoteParagraphs :: "token list \<Rightarrow> block list" where
  "blockquoteParagraphs [] = []"
| "blockquoteParagraphs (TokParagraph text # rest) =
     Paragraph (createBlockquoteParagraph text) # blockquoteParagraphs rest"
| "blockquoteParagraphs (_ # rest) = blockquoteParagraphs rest"

text \<open>
  One iteration of the loop of \<^verbatim>\<open>createWordDoc\<close> over the tokens: the \<^verbatim>\<open>switch\<close> on
  the token's type, appending to \<^verbatim>\<open>children\<close>.
\<close>

fun renderToken :: "block list \<Rightarrow> token \<Rightarrow> block list" where
  "renderToken children (TokHeading headingLevel text) =
     (let style = getHeadingStyle headingLevel;
          children1 =
            (if headingLevel = 1 then
               children @
                 [Paragraph (emptyParagraph\<lparr>par_spacing := Some
                    \<lparr>spacing_before = Some (InchesToTwip 30), spacing_after = None,
                     spacing_line = None, spacing_lineRule = None\<rparr>\<rparr>)]
             else if headingLevel = 2 then
               children @
                 [Paragraph (emptyParagraph\<lparr>par_spacing := Some
                    \<lparr>spacing_before = Some (InchesToTwip 15),
                     spacing_after = Some (InchesToTwip 15),
                     spacing_line = None, spacing_lineRule = None\<rparr>\<rparr>)]
             else children)
      in children1 @
           [Paragraph (emptyParagraph\<lparr>
              par_heading := Some (headingMap headingLevel),
              par_spacing := Some
                \<lparr>spacing_before = Some (if headingLevel = 1 then InchesToTwip 50 else Twips 0),
                 spacing_after = Some (if headingLevel = 1 then InchesToTwip 30 else Twips 0),
                 spacing_line = None, spacing_lineRule = None\<rparr>,
              par_children :=
                [emptyRun\<lparr>run_text := Some text,
                          run_font := Some (style_font style),
                          run_size := Some (style_size style),
                          run_color := Some (js ''000000''),
                          run_bold := style_bold style\<rparr>]\<rparr>)])"
| "renderToken children (TokParagraph text) =
     children @
       [Paragraph (emptyParagraph\<lparr>
          par_children := parseInlineContent text,
          par_spacing := Some
            \<lparr>spacing_before = None, spacing_after = None, spacing_line = Some 560,
             spacing_lineRule = Some EXACT\<rparr>,
          par_alignment := Some AlignBoth,
          par_indent := Some
            \<lparr>indent_left = None, indent_right = None, indent_hanging = None,
             indent_firstLine = Some (InchesToTwip 29)\<rparr>\<rparr>)]"
| "renderToken children (TokCode text) =
     children @
       [Paragraph (emptyParagraph\<lparr>
          par_children := codeRuns (split 10 text),
          par_spacing := Some
            \<lparr>spacing_before = Some (InchesToTwip 20), spacing_after = Some (InchesToTwip 20),
             spacing_line = None, spacing_lineRule = None\<rparr>,
          par_alignment := Some AlignLeft,
          par_indent := Some
            \<lparr>indent_left = Some (InchesToTwip 50), indent_right = None,
             indent_hanging = None, indent_firstLine = None\<rparr>\<rparr>)]"
| "renderToken children (TokTable header rows) =
     children @ [Table (createTableFromMarkdown header rows)]"
| "renderToken children (TokList listToken) = processNestedList children listToken 0 []"
| "renderToken children (TokBlockquote quotes) = children @ blockquoteParagraphs quotes"
| "renderToken children TokHr =
     children @
       [Paragraph (emptyParagraph\<lparr>
          par_children :=
            [emptyRun\<lparr>run_text := Some (replicate 50 0x2500),
                      run_color := Some (js ''000000'')\<rparr>],
          par_alignment := Some AlignCenter,
          par_spacing := Some
            \<lparr>spacing_before = Some (InchesToTwip 20), spacing_after = Some (InchesToTwip 20),
             spacing_line = None, spacing_lineRule = None\<rparr>\<rparr>)]"
| "renderToken children (TokOther kind) = children"

fun renderTokens :: "block list \<Rightarrow> token list \<Rightarrow> block list" where
  "renderTokens children [] = children"
| "renderTokens children (token # tokens) = renderTokens (renderToken children token) tokens"

section \<open>The collaborators and the two operations\<close>

text \<open>
  The tokenizer, the container serializer and the file system are external. Each is a
  parameter: a call either throws, which is \<open>Inl\<close> of the error's message, or returns.
  What a run does to the outside is the sequence of the calls it makes, kept in a log that
  is passed in and returned.
\<close>

record env =
  fs_readFile :: "jsstring \<Rightarrow> jsstring + jsstring"
  marked_lexer :: "jsstring \<Rightarrow> jsstring + token list"
  Packer_toBuffer :: "document \<Rightarrow> jsstring + nat list"
  path_dirname :: "jsstring \<Rightarrow> jsstring"
  fs_mkdir :: "jsstring \<Rightarrow> jsstring + unit"
  fs_writeFile :: "jsstring \<Rightarrow> nat list \<Rightarrow> jsstring + unit"

datatype event =
    ReadFile jsstring
  | MarkedUse
  | MarkedLexer jsstring
  | PackerToBuffer document
  | Mkdir jsstring
  | WriteFile jsstring "nat list"

datatype error_code = InvalidParams | InternalError | MethodNotFound

datatype mcp_error = McpError error_code jsstring

text \<open>The result of a successful call: the text of its single content item.\<close>

datatype tool_result = ToolText jsstring

definition createWordDoc ::
  "env \<Rightarrow> jsstring \<Rightarrow> event list \<Rightarrow> (jsstring + document) \<times> event list" where
  "createWordDoc e markdownContent log =
     (let processedMarkdown = preprocessMarkdown markdownContent;
          log1 = log @ [MarkedUse, MarkedLexer processedMarkdown] in
      case marked_lexer e processedMarkdown of
        Inl err \<Rightarrow> (Inl err, log1)
      | Inr tokens \<Rightarrow> (Inr (Document [renderTokens [] tokens]), log1))"

definition saveWordDocument ::
  "env \<Rightarrow> document \<Rightarrow> jsstring \<Rightarrow> event list \<Rightarrow> (jsstring + unit) \<times> event list" where
  "saveWordDocument e doc outputPath log =
     (let log1 = log @ [PackerToBuffer doc] in
      case Packer_toBuffer e doc of
        Inl err \<Rightarrow> (Inl err, log1)
      | Inr buffer \<Rightarrow>
          (let dir = path_dirname e outputPath; log2 = log1 @ [Mkdir dir] in
           case fs_mkdir e dir of
             Inl err \<Rightarrow> (Inl err, log2)
           | Inr _ \<Rightarrow>
               (let log3 = log2 @ [WriteFile outputPath buffer] in
                case fs_writeFile e outputPath buffer of
                  Inl err \<Rightarrow> (Inl err, log3)
                | Inr _ \<Rightarrow> (Inr (), log3))))"

text \<open>
  The arguments object of a request, \<^verbatim>\<open>request.params.arguments\<close>: its properties by
  name, or \<open>None\<close> when the request carries no such object. The values are the strings
  that the tools' schemas declare.
\<close>

type_synonym arguments = "(jsstring \<rightharpoonup> jsstring) option"

text \<open>
  The argument objects of the two operations. A property that is absent is \<open>None\<close>.
  The casts of the request handler check nothing: they only name the properties that the
  handlers read. \<open>falsy\<close> is the test \<^verbatim>\<open>!x\<close> on such a property: it holds of an absent
  one and of the empty string.
\<close>

record MarkdownToWordArgs =
  markdownPath :: "jsstring option"
  outputPath :: "jsstring option"

record WriteMarkdownToWordArgs =
  content :: "jsstring option"
  outputPathW :: "jsstring option"

definition asMarkdownToWordArgs :: "(jsstring \<rightharpoonup> jsstring) \<Rightarrow> MarkdownToWordArgs" where
  "asMarkdownToWordArgs obj =
     \<lparr>markdownPath = obj (js ''markdownPath''), outputPath = obj (js ''outputPath'')\<rparr>"

definition asWriteMarkdownToWordArgs ::
  "(jsstring \<rightharpoonup> jsstring) \<Rightarrow> WriteMarkdownToWordArgs" where
  "asWriteMarkdownToWordArgs obj =
     \<lparr>content = obj (js ''content''), outputPathW = obj (js ''outputPath'')\<rparr>"

definition falsy :: "jsstring option \<Rightarrow> bool" where
  "falsy x = (case x of None \<Rightarrow> True | Some s \<Rightarrow> s = [])"

text \<open>
  What a handler throws: an \<^verbatim>\<open>McpError\<close>, or the \<^verbatim>\<open>TypeError\<close> of the engine for
  reading a property of \<^verbatim>\<open>undefined\<close>, with its message.
\<close>

datatype thrown = Mcp mcp_error | TypeError jsstring

text \<open>The messages of the source, by their code units.\<close>

definition msgMissingParams :: jsstring where
  "msgMissingParams = [0x7F3A, 0x5C11, 0x5FC5, 0x8981, 0x7684, 0x53C2, 0x6570]"

definition msgFileFailed :: jsstring where
  "msgFileFailed = [0x5904, 0x7406, 0x6587, 0x4EF6, 0x5931, 0x8D25] @ js '': ''"

definition msgCreateFailed :: jsstring where
  "msgCreateFailed = [0x521B, 0x5EFA, 0x6587, 0x6863, 0x5931, 0x8D25] @ js '': ''"

definition msgConverted :: jsstring where
  "msgConverted = [0x6210, 0x529F, 0x5C06] @ js ''Markdown'' @ [0x6587, 0x4EF6, 0x8F6C, 0x6362, 0x4E3A] @ js ''Word'' @ [0x6587, 0x6863] @ js '': ''"

definition msgCreated :: jsstring where
  "msgCreated = [0x6210, 0x529F, 0x521B, 0x5EFA] @ js ''Word'' @ [0x6587, 0x6863] @ js '': ''"

definition msgUnknownTool :: jsstring where
  "msgUnknownTool = [0x672A, 0x77E5, 0x5DE5, 0x5177] @ js '': ''"

definition msgProcessingFailed :: jsstring where
  "msgProcessingFailed = [0x5904, 0x7406, 0x6587, 0x6863, 0x65F6, 0x53D1, 0x751F, 0x9519, 0x8BEF] @ js '': ''"

text \<open>The engine's message for reading the property \<open>prop\<close> of \<^verbatim>\<open>undefined\<close>.\<close>

definition msgUndefinedProperty :: "jsstring \<Rightarrow> jsstring" where
  "msgUndefinedProperty prop =
     js ''Cannot read properties of undefined (reading '' @ [39] @ prop @ [39] @ js '')''"

text \<open>
  The two handlers. The test of the arguments stands before the \<^verbatim>\<open>try\<close>: with no
  arguments object, reading the first property throws there, and nothing catches it in
  the handler.
\<close>

fun handleMarkdownToWord ::
  "env \<Rightarrow> MarkdownToWordArgs option \<Rightarrow> event list \<Rightarrow> (thrown + tool_result) \<times> event list"
  where
  "handleMarkdownToWord e None log =
     (Inl (TypeError (msgUndefinedProperty (js ''markdownPath''))), log)"
| "handleMarkdownToWord e (Some args) log =
     (if falsy (markdownPath args) \<or> falsy (outputPath args) then
        (Inl (Mcp (McpError InvalidParams msgMissingParams)), log)
      else
        (let src = the (markdownPath args); out = the (outputPath args);
             log1 = log @ [ReadFile src] in
         case fs_readFile e src of
           Inl err \<Rightarrow> (Inl (Mcp (McpError InternalError (msgFileFailed @ err))), log1)
         | Inr markdownContent \<Rightarrow>
             (case createWordDoc e markdownContent log1 of
                (Inl err, log2) \<Rightarrow>
                  (Inl (Mcp (McpError InternalError (msgFileFailed @ err))), log2)
              | (Inr doc, log2) \<Rightarrow>
                  (case saveWordDocument e doc out log2 of
                     (Inl err, log3) \<Rightarrow>
                       (Inl (Mcp (McpError InternalError (msgFileFailed @ err))), log3)
                   | (Inr _, log3) \<Rightarrow> (Inr (ToolText (msgConverted @ out)), log3)))))"

fun handleWriteMarkdownToWord ::
  "env \<Rightarrow> WriteMarkdownToWordArgs option \<Rightarrow> event list
     \<Rightarrow> (thrown + tool_result) \<times> event list"
  where
  "handleWriteMarkdownToWord e None log =
     (Inl (TypeError (msgUndefinedProperty (js ''content''))), log)"
| "handleWriteMarkdownToWord e (Some args) log =
     (if falsy (content args) \<or> falsy (outputPathW args) then
        (Inl (Mcp (McpError InvalidParams msgMissingParams)), log)
      else
        (let text = the (content args); out = the (outputPathW args) in
         case createWordDoc e text log of
           (Inl err, log2) \<Rightarrow>
             (Inl (Mcp (McpError InternalError (msgCreateFailed @ err))), log2)
         | (Inr doc, log2) \<Rightarrow>
             (case saveWordDocument e doc out log2 of
                (Inl err, log3) \<Rightarrow>
                  (Inl (Mcp (McpError InternalError (msgCreateFailed @ err))), log3)
              | (Inr _, log3) \<Rightarrow> (Inr (ToolText (msgCreated @ out)), log3))))"

text \<open>
  The request handler for a tool call: it picks the handler by the tool's name, passes an
  \<^verbatim>\<open>McpError\<close> on as it is, and wraps anything else that was thrown in an
  \<open>InternalError\<close>.
\<close>

definition callTool ::
  "env \<Rightarrow> jsstring \<Rightarrow> arguments \<Rightarrow> event list \<Rightarrow> (mcp_error + tool_result) \<times> event list"
  where
  "callTool e name args log =
     (case (if name = js ''markdown_to_word'' then
              handleMarkdownToWord e (map_option asMarkdownToWordArgs args) log
            else if name = js ''write_markdown_to_word'' then
              handleWriteMarkdownToWord e (map_option asWriteMarkdownToWordArgs args) log
            else (Inl (Mcp (McpError MethodNotFound (msgUnknownTool @ name))), log)) of
        (Inl (Mcp err), log1) \<Rightarrow> (Inl err, log1)
      | (Inl (TypeError msg), log1) \<Rightarrow>
          (Inl (McpError InternalError (msgProcessingFailed @ msg)), log1)
      | (Inr res, log1) \<Rightarrow> (Inr res, log1))"

section \<open>Observations\<close>

text \<open>
  The blocks that a call of the list renderer appends: what \<^verbatim>\<open>processNestedList\<close> and its
  two loops add to an array that is empty when they start.
\<close>

definition listBlocks :: "list_token \<Rightarrow> nat \<Rightarrow> jsstring \<Rightarrow> block list" where
  "listBlocks listToken level parentBullet = processNestedList [] listToken level parentBullet"

definition itemsBlocks ::
  "bool \<Rightarrow> nat \<Rightarrow> nat \<Rightarrow> jsstring \<Rightarrow> list_item list \<Rightarrow> block list" where
  "itemsBlocks ordered index level parentBullet items =
     processItems [] ordered index level parentBullet items"

definition itemTokensBlocks :: "nat \<Rightarrow> jsstring \<Rightarrow> token list \<Rightarrow> block list" where
  "itemTokensBlocks level bullet tokens = processItemTokens [] level bullet tokens"

text \<open>The text of the first run of a paragraph, when it has a run.\<close>

definition firstRunText :: "para \<Rightarrow> jsstring option" where
  "firstRunText p = (case par_children p of [] \<Rightarrow> None | r # _ \<Rightarrow> run_text r)"

text \<open>
  Stand-ins for the collaborators, to run the two operations on concrete inputs: a file
  system holding the listed files, a tokenizer that knows the listed texts, a serializer
  that returns two bytes, and directory creation and writing that succeed.
\<close>

definition stubEnv :: "(jsstring \<times> jsstring) list \<Rightarrow> (jsstring \<times> token list) list \<Rightarrow> env" where
  "stubEnv files lexed =
     \<lparr>fs_readFile = (\<lambda>p. case map_of files p of Some c \<Rightarrow> Inr c | None \<Rightarrow> Inl (js ''ENOENT'')),
      marked_lexer = (\<lambda>s. case map_of lexed s of Some ts \<Rightarrow> Inr ts | None \<Rightarrow> Inl (js ''unknown text'')),
      Packer_toBuffer = (\<lambda>d. Inr [80, 75]),
      path_dirname = (\<lambda>p. js ''.''),
      fs_mkdir = (\<lambda>d. Inr ()),
      fs_writeFile = (\<lambda>p b. Inr ())\<rparr>"

section \<open>Properties of the normalizer\<close>

lemmas normalizer_eval = js_def preprocessMarkdown_def preprocessLine_def trim_def
  mainListMatch_def nestedDashMatch_def isWhiteSpace_def isDigit_def isDot_def
  isLineTerminator_def Let_def

text \<open>
  Claim C2. The normalizer maps the three lines \<^verbatim>\<open>1. **Step**\<close>, \<^verbatim>\<open>- sub a\<close>,
  \<^verbatim>\<open>- sub b\<close> (each ended by a line feed) to the same main-item line followed by the
  two dash lines with exactly three spaces before the dash.
\<close>

theorem preprocessMarkdown_targeted_case:
  "preprocessMarkdown (js ''1. **Step**\<newline>- sub a\<newline>- sub b\<newline>'')
     = js ''1. **Step**\<newline>   - sub a\<newline>   - sub b\<newline>''"
  by (simp add: normalizer_eval)

text \<open>Splitting at a separator and joining with it gives the text back.\<close>

lemma split_not_Nil: "split sep s \<noteq> []"
  by (induction s) (simp_all add: Let_def)

lemma join_Cons_Cons: "join sep ((c # l) # ls) = c # join sep (l # ls)"
  by (cases ls) simp_all

lemma join_split: "join sep (split sep s) = s"
proof (induction s)
  case Nil
  show ?case by simp
next
  case (Cons c cs)
  obtain l ls where r: "split sep cs = l # ls"
    using split_not_Nil [of sep cs] by (cases "split sep cs") auto
  show ?case
  proof (cases "c = sep")
    case True
    with Cons r show ?thesis by simp
  next
    case False
    with Cons r show ?thesis by (simp add: join_Cons_Cons)
  qed
qed

text \<open>
  While no line is a main item, no item number is ever active, and every line is passed
  through as it is.
\<close>

lemma preprocessLine_no_main:
  assumes "mainListMatch (trim line) = None" and "currentMainListItem st = None"
  shows "resultLines (preprocessLine line st) = resultLines st @ [line]"
    and "currentMainListItem (preprocessLine line st) = None"
  using assms by (simp_all add: preprocessLine_def Let_def)

lemma preprocessLoop_no_main:
  assumes "list_all (\<lambda>line. mainListMatch (trim line) = None) lines"
    and "currentMainListItem st = None"
  shows "resultLines (preprocessLoop lines st) = resultLines st @ lines"
  using assms
proof (induction lines arbitrary: st)
  case Nil
  show ?case by simp
next
  case (Cons line lines)
  from Cons.prems have m: "mainListMatch (trim line) = None"
    and r: "list_all (\<lambda>line. mainListMatch (trim line) = None) lines" by simp_all
  have "resultLines (preprocessLoop lines (preprocessLine line st))
      = resultLines (preprocessLine line st) @ lines"
    using Cons.IH [OF r] preprocessLine_no_main(2) [OF m Cons.prems(2)] by simp
  then show ?case
    using preprocessLine_no_main(1) [OF m Cons.prems(2)] by simp
qed

lemma preprocessMarkdown_no_main:
  assumes "list_all (\<lambda>line. mainListMatch (trim line) = None) (split 10 markdown)"
  shows "preprocessMarkdown markdown = markdown"
  using preprocessLoop_no_main [OF assms, of "\<lparr>resultLines = [], currentMainListItem = None, processingNestedList = False\<rparr>"]
  by (simp add: preprocessMarkdown_def join_split)

text \<open>
  Claim C7. On a text none of whose lines, once trimmed, matches the main-item pattern,
  running the normalizer twice gives the same text as running it once.
\<close>

theorem preprocessMarkdown_idempotent:
  assumes "list_all (\<lambda>line. mainListMatch (trim line) = None) (split 10 markdown)"
  shows "preprocessMarkdown (preprocessMarkdown markdown) = preprocessMarkdown markdown"
  by (simp add: preprocessMarkdown_no_main [OF assms])

theorem preprocessMarkdown_idempotent_witness:
  "list_all (\<lambda>line. mainListMatch (trim line) = None)
     (split 10 (js ''Intro\<newline>- a\<newline>2. plain\<newline>''))
   \<and> preprocessMarkdown (preprocessMarkdown (js ''Intro\<newline>- a\<newline>2. plain\<newline>''))
       = preprocessMarkdown (js ''Intro\<newline>- a\<newline>2. plain\<newline>'')"
proof -
  have h: "list_all (\<lambda>line. mainListMatch (trim line) = None)
     (split 10 (js ''Intro\<newline>- a\<newline>2. plain\<newline>''))"
    by (simp add: normalizer_eval)
  show ?thesis
    using h preprocessMarkdown_idempotent [OF h] by simp
qed

section \<open>Properties of the inline run parser\<close>

lemmas inline_eval = parseInlineContent_def addCurrentText_def slice_def charAt_def js_def
  parseLoop.simps

text \<open>
  Claim C3. Each of the five inputs gives exactly one run: \<^verbatim>\<open>**bold**\<close> a bold one,
  \<^verbatim>\<open>*it*\<close> an italic one, \<^verbatim>\<open>***both***\<close> one that is bold and italic, a code span one
  in the monospace typeface and size, and the unterminated \<^verbatim>\<open>**open\<close> a bold one holding
  all the text after the marker. The parser has no failing branch: it is a total function
  to run sequences.
\<close>

theorem parseInlineContent_marker_cases:
  "parseInlineContent (js ''**bold**'') =
     [\<lparr>run_text = Some (js ''bold''), run_font = Some (style_font STYLES_normal),
       run_size = Some (style_size STYLES_normal), run_color = Some (js ''000000''),
       run_bold = Some True, run_italics = Some False, run_strike = Some False,
       run_break = None\<rparr>]
   \<and> parseInlineContent (js ''*it*'') =
     [\<lparr>run_text = Some (js ''it''), run_font = Some (style_font STYLES_normal),
       run_size = Some (style_size STYLES_normal), run_color = Some (js ''000000''),
       run_bold = Some False, run_italics = Some True, run_strike = Some False,
       run_break = None\<rparr>]
   \<and> parseInlineContent (js ''***both***'') =
     [\<lparr>run_text = Some (js ''both''), run_font = Some (style_font STYLES_normal),
       run_size = Some (style_size STYLES_normal), run_color = Some (js ''000000''),
       run_bold = Some True, run_italics = Some True, run_strike = Some False,
       run_break = None\<rparr>]
   \<and> parseInlineContent (js ''`code`'') =
     [\<lparr>run_text = Some (js ''code''), run_font = Some (js ''Courier New''),
       run_size = Some 24, run_color = Some (js ''000000''),
       run_bold = Some False, run_italics = Some False, run_strike = Some False,
       run_break = None\<rparr>]
   \<and> parseInlineContent (js ''**open'') =
     [\<lparr>run_text = Some (js ''open''), run_font = Some (style_font STYLES_normal),
       run_size = Some (style_size STYLES_normal), run_color = Some (js ''000000''),
       run_bold = Some True, run_italics = Some False, run_strike = Some False,
       run_break = None\<rparr>]"
proof (intro conjI)
  show "parseInlineContent (js ''**bold**'') =
     [\<lparr>run_text = Some (js ''bold''), run_font = Some (style_font STYLES_normal),
       run_size = Some (style_size STYLES_normal), run_color = Some (js ''000000''),
       run_bold = Some True, run_italics = Some False, run_strike = Some False,
       run_break = None\<rparr>]"
    by (simp add: inline_eval)
  show "parseInlineContent (js ''*it*'') =
     [\<lparr>run_text = Some (js ''it''), run_font = Some (style_font STYLES_normal),
       run_size = Some (style_size STYLES_normal), run_color = Some (js ''000000''),
       run_bold = Some False, run_italics = Some True, run_strike = Some False,
       run_break = None\<rparr>]"
    by (simp add: inline_eval)
  show "parseInlineContent (js ''***both***'') =
     [\<lparr>run_text = Some (js ''both''), run_font = Some (style_font STYLES_normal),
       run_size = Some (style_size STYLES_normal), run_color = Some (js ''000000''),
       run_bold = Some True, run_italics = Some True, run_strike = Some False,
       run_break = None\<rparr>]"
    by (simp add: inline_eval)
  show "parseInlineContent (js ''`code`'') =
     [\<lparr>run_text = Some (js ''code''), run_font = Some (js ''Courier New''),
       run_size = Some 24, run_color = Some (js ''000000''),
       run_bold = Some False, run_italics = Some False, run_strike = Some False,
       run_break = None\<rparr>]"
    by (simp add: inline_eval)
  show "parseInlineContent (js ''**open'') =
     [\<lparr>run_text = Some (js ''open''), run_font = Some (style_font STYLES_normal),
       run_size = Some (style_size STYLES_normal), run_color = Some (js ''000000''),
       run_bold = Some True, run_italics = Some False, run_strike = Some False,
       run_break = None\<rparr>]"
    by (simp add: inline_eval)
qed

section \<open>Properties of the list renderer\<close>

text \<open>One iteration of the loop over the items, with the bindings written out.\<close>

lemma processItems_Cons:
  "processItems ch ordered index level pb (ListItem itemText itemTokens # rest) =
     processItems
       (processItemTokens
          (ch @ (if trim itemText \<noteq> [] then
                   [Paragraph (createListItemParagraph
                      (if 0 < level \<and> pb \<noteq> [] \<and> startsWith itemText pb
                       then trim (substring itemText (length pb)) else itemText)
                      level ordered (if ordered then Some index else None))]
                 else []))
          (Suc level) (if ordered then numberToString index @ js ''. '' else []) itemTokens)
       ordered (if ordered then Suc index else index) level pb rest"
  by (simp add: Let_def)

lemma listBlocks_ListToken:
  "listBlocks (ListToken ordered start items) level pb =
     itemsBlocks ordered (case start of Some s \<Rightarrow> s | None \<Rightarrow> 1) level pb items"
  by (simp add: listBlocks_def itemsBlocks_def)

lemma itemsBlocks_Nil: "itemsBlocks ordered index level pb [] = []"
  by (simp add: itemsBlocks_def)

lemma itemTokensBlocks_Nil: "itemTokensBlocks level b [] = []"
  by (simp add: itemTokensBlocks_def)

lemma itemTokensBlocks_other:
  "\<forall>sub. token \<noteq> TokList sub \<Longrightarrow>
     itemTokensBlocks level b (token # rest) = itemTokensBlocks level b rest"
  by (cases token) (simp_all add: itemTokensBlocks_def)

lemma processItemTokens_other:
  "\<forall>sub. token \<noteq> TokList sub \<Longrightarrow>
     processItemTokens ch level b (token # rest) = processItemTokens ch level b rest"
  by (cases token) simp_all

lemma process_append_aux:
  fixes c0 c1 c2 :: "block list"
  shows "\<forall>ch. processNestedList ch tok level pb = ch @ listBlocks tok level pb"
    and "\<forall>ch. processItems ch ordered index level1 pb1 items
            = ch @ itemsBlocks ordered index level1 pb1 items"
    and "\<forall>ch. processItemTokens ch level2 b toks = ch @ itemTokensBlocks level2 b toks"
proof (induction c0 tok level pb and c1 ordered index level1 pb1 items and c2 level2 b toks
    rule: processNestedList_processItems_processItemTokens.induct)
  case (1 children ordered start items level parentBullet)
  then show ?case
    by (simp add: listBlocks_ListToken)
next
  case (2 children ordered index level parentBullet)
  show ?case by (simp add: itemsBlocks_Nil)
next
  case (3 children ordered index level parentBullet itemText itemTokens rest)
  define own where "own = (if trim itemText \<noteq> [] then
                   [Paragraph (createListItemParagraph
                      (if 0 < level \<and> parentBullet \<noteq> [] \<and> startsWith itemText parentBullet
                       then trim (substring itemText (length parentBullet)) else itemText)
                      level ordered (if ordered then Some index else None))]
                 else [])"
  define cb where "cb = (if ordered then numberToString index @ js ''. '' else [])"
  define i1 where "i1 = (if ordered then Suc index else index)"
  have a: "processItemTokens ch (Suc level) cb itemTokens
              = ch @ itemTokensBlocks (Suc level) cb itemTokens" for ch
    using 3(1)[OF refl refl] by (cases ordered) (simp_all add: cb_def)
  have b: "processItems ch ordered i1 level parentBullet rest
              = ch @ itemsBlocks ordered i1 level parentBullet rest" for ch
    using 3(2)[OF refl refl refl] by (cases ordered) (simp_all add: i1_def)
  have c: "processItems ch ordered index level parentBullet (ListItem itemText itemTokens # rest)
        = ch @ own @ itemTokensBlocks (Suc level) cb itemTokens
             @ itemsBlocks ordered i1 level parentBullet rest" for ch
    unfolding processItems_Cons own_def[symmetric] cb_def[symmetric] i1_def[symmetric]
    by (simp add: a b)
  show ?case
    unfolding itemsBlocks_def[of _ _ _ _ "ListItem itemText itemTokens # rest"]
    by (simp only: c append_Nil) simp
next
  case (4 children level bullet)
  show ?case by (simp add: itemTokensBlocks_Nil)
next
  case (5 children level bullet subToken rest)
  have c: "processItemTokens ch level bullet (TokList subToken # rest)
       = ch @ listBlocks subToken level bullet @ itemTokensBlocks level bullet rest" for ch
    using 5 by simp
  show ?case
    unfolding itemTokensBlocks_def[of _ _ "TokList subToken # rest"]
    by (simp only: c append_Nil) simp
qed (simp_all add: itemTokensBlocks_other processItemTokens_other)

lemma processNestedList_append:
  "processNestedList ch tok level pb = ch @ listBlocks tok level pb"
  using process_append_aux(1) by blast

lemma processItemTokens_append:
  "processItemTokens ch level b toks = ch @ itemTokensBlocks level b toks"
  using process_append_aux(3) by blast

lemma processItems_append:
  "processItems ch ordered index level pb items = ch @ itemsBlocks ordered index level pb items"
  using process_append_aux(2) by blast

lemma itemsBlocks_Cons:
  "itemsBlocks ordered index level pb (ListItem itemText itemTokens # rest) =
     (if trim itemText \<noteq> [] then
        [Paragraph (createListItemParagraph
           (if 0 < level \<and> pb \<noteq> [] \<and> startsWith itemText pb
            then trim (substring itemText (length pb)) else itemText)
           level ordered (if ordered then Some index else None))]
      else [])
     @ itemTokensBlocks (Suc level) (if ordered then numberToString index @ js ''. '' else [])
         itemTokens
     @ itemsBlocks ordered (if ordered then Suc index else index) level pb rest"
proof -
  have "itemsBlocks ordered index level pb (ListItem itemText itemTokens # rest)
      = processItems [] ordered index level pb (ListItem itemText itemTokens # rest)"
    by (simp only: itemsBlocks_def)
  then show ?thesis
    unfolding processItems_Cons
    by (simp add: processItems_append processItemTokens_append)
qed

lemma itemTokensBlocks_TokList:
  "itemTokensBlocks level b (TokList subToken # rest) =
     listBlocks subToken level b @ itemTokensBlocks level b rest"
proof -
  have "itemTokensBlocks level b (TokList subToken # rest)
      = processItemTokens (processNestedList [] subToken level b) level b rest"
    by (simp add: itemTokensBlocks_def)
  then show ?thesis
    by (simp add: processItemTokens_append processNestedList_append)
qed

lemma firstRunText_createListItemParagraph:
  "firstRunText (createListItemParagraph text level True (Some n))
     = Some (numberToString n @ js ''. '')"
  by (simp add: firstRunText_def createListItemParagraph_def emptyParagraph_def Let_def)

lemma numberToString_digit: "n < 10 \<Longrightarrow> numberToString n = [48 + n]"
  by (simp add: numberToString.simps)

text \<open>
  Claim C4, as stated, fails. An item whose text is not empty but blank, a single space
  here, gets no paragraph, and the index still advances past it: the list that starts at
  5 appends two paragraphs, marked \<^verbatim>\<open>6. \<close> and \<^verbatim>\<open>7. \<close>.
\<close>

theorem blank_item_gets_no_paragraph:
  "js '' '' \<noteq> [] \<and> js ''two'' \<noteq> [] \<and> js ''three'' \<noteq> []
   \<and> processNestedList []
        (ListToken True (Some 5)
           [ListItem (js '' '') [], ListItem (js ''two'') [], ListItem (js ''three'') []])
        0 []
     = [Paragraph (createListItemParagraph (js ''two'') 0 True (Some 6)),
        Paragraph (createListItemParagraph (js ''three'') 0 True (Some 7))]
   \<and> firstRunText (createListItemParagraph (js ''two'') 0 True (Some 6)) = Some (js ''6. '')
   \<and> firstRunText (createListItemParagraph (js ''three'') 0 True (Some 7)) = Some (js ''7. '')"
proof (intro conjI)
  show "processNestedList []
        (ListToken True (Some 5)
           [ListItem (js '' '') [], ListItem (js ''two'') [], ListItem (js ''three'') []])
        0 []
     = [Paragraph (createListItemParagraph (js ''two'') 0 True (Some 6)),
        Paragraph (createListItemParagraph (js ''three'') 0 True (Some 7))]"
    by (simp add: js_def trim_def isWhiteSpace_def Let_def)
qed (simp_all add: firstRunText_createListItemParagraph numberToString_digit js_def)

text \<open>
  Claim C4, amended. An ordered list that starts at 5 and has three items whose text is
  not blank (not empty once trimmed) appends three paragraphs whose first runs are the
  markers \<^verbatim>\<open>5. \<close>, \<^verbatim>\<open>6. \<close> and \<^verbatim>\<open>7. \<close>, in this order; after each comes what the
  item's own nested lists render, which is nothing for an item without sub-tokens.
\<close>

theorem ordered_list_markers:
  assumes "trim ta \<noteq> []" and "trim tb \<noteq> []" and "trim tc \<noteq> []"
  shows "\<exists>pa pb pc.
     processNestedList children
         (ListToken True (Some 5) [ListItem ta ka, ListItem tb kb, ListItem tc kc])
         level parentBullet
       = children @ Paragraph pa # itemTokensBlocks (Suc level) (js ''5. '') ka
                  @ Paragraph pb # itemTokensBlocks (Suc level) (js ''6. '') kb
                  @ Paragraph pc # itemTokensBlocks (Suc level) (js ''7. '') kc
     \<and> firstRunText pa = Some (js ''5. '')
     \<and> firstRunText pb = Some (js ''6. '')
     \<and> firstRunText pc = Some (js ''7. '')"
proof -
  have m: "numberToString 5 @ js ''. '' = js ''5. ''" "numberToString 6 @ js ''. '' = js ''6. ''"
    "numberToString 7 @ js ''. '' = js ''7. ''"
    by (simp_all add: numberToString_digit js_def)
  have "processNestedList children
         (ListToken True (Some 5) [ListItem ta ka, ListItem tb kb, ListItem tc kc])
         level parentBullet
      = children @ itemsBlocks True 5 level parentBullet
          [ListItem ta ka, ListItem tb kb, ListItem tc kc]"
    by (simp add: processNestedList_append listBlocks_ListToken)
  also have "itemsBlocks True 5 level parentBullet
          [ListItem ta ka, ListItem tb kb, ListItem tc kc]
     = Paragraph (createListItemParagraph
           (if 0 < level \<and> parentBullet \<noteq> [] \<and> startsWith ta parentBullet
            then trim (substring ta (length parentBullet)) else ta) level True (Some 5))
         # itemTokensBlocks (Suc level) (js ''5. '') ka
       @ Paragraph (createListItemParagraph
           (if 0 < level \<and> parentBullet \<noteq> [] \<and> startsWith tb parentBullet
            then trim (substring tb (length parentBullet)) else tb) level True (Some 6))
         # itemTokensBlocks (Suc level) (js ''6. '') kb
       @ Paragraph (createListItemParagraph
           (if 0 < level \<and> parentBullet \<noteq> [] \<and> startsWith tc parentBullet
            then trim (substring tc (length parentBullet)) else tc) level True (Some 7))
         # itemTokensBlocks (Suc level) (js ''7. '') kc"
    using assms by (simp add: itemsBlocks_Cons itemsBlocks_Nil m)
  finally show ?thesis
    using m by (metis firstRunText_createListItemParagraph)
qed

theorem ordered_list_markers_witness:
  "trim (js ''one'') \<noteq> [] \<and> trim (js ''two'') \<noteq> [] \<and> trim (js ''three'') \<noteq> []
   \<and> (\<exists>pa pb pc.
       processNestedList []
         (ListToken True (Some 5)
            [ListItem (js ''one'') [], ListItem (js ''two'') [], ListItem (js ''three'') []])
         0 []
         = [Paragraph pa, Paragraph pb, Paragraph pc]
       \<and> firstRunText pa = Some (js ''5. '')
       \<and> firstRunText pb = Some (js ''6. '')
       \<and> firstRunText pc = Some (js ''7. ''))"
proof -
  have h: "trim (js ''one'') \<noteq> []" "trim (js ''two'') \<noteq> []" "trim (js ''three'') \<noteq> []"
    by (simp_all add: trim_def js_def isWhiteSpace_def)
  show ?thesis
    using h ordered_list_markers [OF h, where children = "[]" and ka = "[]" and kb = "[]"
        and kc = "[]" and level = 0 and parentBullet = "[]"]
    by (simp add: itemTokensBlocks_Nil)
qed

lemmas list_eval = createListItemParagraph_def emptyParagraph_def emptyRun_def trim_def
  isWhiteSpace_def startsWith_def substring_def STYLES_normal_def Let_def

text \<open>
  Claim C5, as stated, fails. The marker handed to the recursive call is the empty string
  when the item's list is unordered, not the bullet: under an unordered parent, a child
  whose raw text starts with the bullet and a space keeps them, and is rendered with the
  text \<^verbatim>\<open>U+2022 x\<close> after its own bullet, not with \<^verbatim>\<open>x\<close>.
\<close>

theorem unordered_parent_keeps_bullet_text:
  "processNestedList []
     (ListToken False None
        [ListItem (js ''a'')
           [TokList (ListToken False None [ListItem ([0x2022, 32] @ js ''x'') []])]])
     0 []
   = [Paragraph (createListItemParagraph (js ''a'') 0 False None),
      Paragraph (createListItemParagraph ([0x2022, 32] @ js ''x'') 1 False None)]
   \<and> createListItemParagraph ([0x2022, 32] @ js ''x'') 1 False None
       \<noteq> createListItemParagraph (js ''x'') 1 False None"
proof (intro conjI)
  show "processNestedList []
     (ListToken False None
        [ListItem (js ''a'')
           [TokList (ListToken False None [ListItem ([0x2022, 32] @ js ''x'') []])]])
     0 []
   = [Paragraph (createListItemParagraph (js ''a'') 0 False None),
      Paragraph (createListItemParagraph ([0x2022, 32] @ js ''x'') 1 False None)]"
    by (simp add: js_def trim_def isWhiteSpace_def Let_def)
  have "map run_text (par_children (createListItemParagraph ([0x2022, 32] @ js ''x'') 1 False None))
      \<noteq> map run_text (par_children (createListItemParagraph (js ''x'') 1 False None))"
    by (simp add: list_eval inline_eval)
  then show "createListItemParagraph ([0x2022, 32] @ js ''x'') 1 False None
       \<noteq> createListItemParagraph (js ''x'') 1 False None"
    by auto
qed

text \<open>The two loops distribute over a split of the list they run over.\<close>

lemma itemTokensBlocks_Cons_other:
  "itemTokensBlocks level b (token # rest) =
     (case token of TokList subToken \<Rightarrow> listBlocks subToken level b | _ \<Rightarrow> [])
     @ itemTokensBlocks level b rest"
  by (cases token) (simp_all add: itemTokensBlocks_TokList itemTokensBlocks_other)

lemma itemTokensBlocks_append:
  "itemTokensBlocks level b (pre @ post) =
     itemTokensBlocks level b pre @ itemTokensBlocks level b post"
  by (induction pre) (simp_all add: itemTokensBlocks_Nil itemTokensBlocks_Cons_other)

lemma itemsBlocks_append:
  "itemsBlocks ordered index level pb (pre @ post) =
     itemsBlocks ordered index level pb pre
     @ itemsBlocks ordered (if ordered then index + length pre else index) level pb post"
proof (induction pre arbitrary: index)
  case Nil
  show ?case by (simp add: itemsBlocks_Nil)
next
  case (Cons item pre)
  obtain itemText itemTokens where item: "item = ListItem itemText itemTokens"
    by (cases item)
  show ?case
    using Cons.IH [of "Suc index"] Cons.IH [of index]
    by (cases ordered) (simp_all add: item itemsBlocks_Cons)
qed

lemma numberToString_digits: "numberToString n \<noteq> [] \<and> list_all isDigit (numberToString n)"
proof (induction n rule: numberToString.induct)
  case (1 n)
  show ?case
  proof (cases "n < 10")
    case True
    then show ?thesis by (simp add: numberToString.simps [of n] isDigit_def)
  next
    case False
    have "n mod 10 < 10" by simp
    then have "isDigit (48 + n mod 10)" by (simp add: isDigit_def)
    with False 1 show ?thesis by (simp add: numberToString.simps [of n])
  qed
qed

lemma isDigit_not_isWhiteSpace: "isDigit c \<Longrightarrow> \<not> isWhiteSpace c"
  by (auto simp add: isDigit_def isWhiteSpace_def)

lemma trim_not_Nil:
  assumes "s = c # r" and "\<not> isWhiteSpace c"
  shows "trim s \<noteq> []"
proof -
  have "dropWhile isWhiteSpace s = c # r" using assms by simp
  moreover have "dropWhile isWhiteSpace (rev (c # r)) \<noteq> []"
    using assms(2) by (simp add: dropWhile_append)
  ultimately show ?thesis by (simp add: trim_def)
qed

lemma trim_marker_prefixed:
  assumes "startsWith text (numberToString n @ js ''. '')"
  shows "trim text \<noteq> []"
proof -
  obtain d ds where ds: "numberToString n = d # ds" and d: "isDigit d"
    using numberToString_digits [of n] by (cases "numberToString n") auto
  from assms have "take (length (numberToString n @ js ''. '')) text = numberToString n @ js ''. ''"
    by (simp add: startsWith_def)
  then have "text = (d # ds @ js ''. '') @ drop (length (numberToString n @ js ''. '')) text"
    using ds by (metis append_Cons append_take_drop_id)
  then obtain r where "text = d # r" by simp
  then show ?thesis using d trim_not_Nil isDigit_not_isWhiteSpace by blast
qed

text \<open>
  Claim C5, amended. For every item and every list token among its sub-tokens, the
  nested list is rendered one level deeper with the marker \<^verbatim>\<open><index>. \<close> of the item
  when the item's list is ordered and with the empty string when it is unordered. A call
  below the top level that received the marker of an ordered item renders every child
  whose raw text starts with that marker without the marker, the rest trimmed; a call
  that received the empty string renders every child with non-blank text unchanged.
\<close>

theorem nested_list_marker:
  fixes ordered cOrdered :: bool and index n :: nat and cStart :: "nat option"
    and cPre :: "list_item list"
  defines "passed \<equiv> (if ordered then numberToString index @ js ''. '' else [])"
    and "m \<equiv> numberToString n @ js ''. ''"
    and "s \<equiv> (case cStart of Some v \<Rightarrow> v | None \<Rightarrow> 1)"
  defines "i \<equiv> (if cOrdered then s + length cPre else s)"
  shows
  "itemsBlocks ordered index level pb (ListItem itemText (pre @ TokList subToken # post) # rest) =
     (if trim itemText \<noteq> [] then
        [Paragraph (createListItemParagraph
           (if 0 < level \<and> pb \<noteq> [] \<and> startsWith itemText pb
            then trim (substring itemText (length pb)) else itemText)
           level ordered (if ordered then Some index else None))]
      else [])
     @ itemTokensBlocks (Suc level) passed pre
     @ listBlocks subToken (Suc level) passed
     @ itemTokensBlocks (Suc level) passed post
     @ itemsBlocks ordered (if ordered then Suc index else index) level pb rest
   \<and> (startsWith childText m \<longrightarrow>
        listBlocks (ListToken cOrdered cStart (cPre @ ListItem childText childTokens # cPost))
          (Suc lvl) m
        = itemsBlocks cOrdered s (Suc lvl) m cPre
          @ Paragraph (createListItemParagraph (trim (substring childText (length m)))
              (Suc lvl) cOrdered (if cOrdered then Some i else None))
          # itemTokensBlocks (Suc (Suc lvl))
              (if cOrdered then numberToString i @ js ''. '' else []) childTokens
          @ itemsBlocks cOrdered (if cOrdered then Suc i else i) (Suc lvl) m cPost)
   \<and> (trim childText \<noteq> [] \<longrightarrow>
        listBlocks (ListToken cOrdered cStart (cPre @ ListItem childText childTokens # cPost))
          (Suc lvl) []
        = itemsBlocks cOrdered s (Suc lvl) [] cPre
          @ Paragraph (createListItemParagraph childText
              (Suc lvl) cOrdered (if cOrdered then Some i else None))
          # itemTokensBlocks (Suc (Suc lvl))
              (if cOrdered then numberToString i @ js ''. '' else []) childTokens
          @ itemsBlocks cOrdered (if cOrdered then Suc i else i) (Suc lvl) [] cPost)"
proof (intro conjI impI)
  show "itemsBlocks ordered index level pb
          (ListItem itemText (pre @ TokList subToken # post) # rest) =
     (if trim itemText \<noteq> [] then
        [Paragraph (createListItemParagraph
           (if 0 < level \<and> pb \<noteq> [] \<and> startsWith itemText pb
            then trim (substring itemText (length pb)) else itemText)
           level ordered (if ordered then Some index else None))]
      else [])
     @ itemTokensBlocks (Suc level) passed pre
     @ listBlocks subToken (Suc level) passed
     @ itemTokensBlocks (Suc level) passed post
     @ itemsBlocks ordered (if ordered then Suc index else index) level pb rest"
    by (simp add: itemsBlocks_Cons itemTokensBlocks_append itemTokensBlocks_TokList passed_def)
next
  assume sw: "startsWith childText m"
  then have ne: "trim childText \<noteq> []"
    unfolding m_def by (rule trim_marker_prefixed)
  have mne: "m \<noteq> []" by (simp add: m_def js_def)
  show "listBlocks (ListToken cOrdered cStart (cPre @ ListItem childText childTokens # cPost))
          (Suc lvl) m
        = itemsBlocks cOrdered s (Suc lvl) m cPre
          @ Paragraph (createListItemParagraph (trim (substring childText (length m)))
              (Suc lvl) cOrdered (if cOrdered then Some i else None))
          # itemTokensBlocks (Suc (Suc lvl))
              (if cOrdered then numberToString i @ js ''. '' else []) childTokens
          @ itemsBlocks cOrdered (if cOrdered then Suc i else i) (Suc lvl) m cPost"
    using sw ne mne
    by (cases cOrdered)
      (simp_all add: listBlocks_ListToken itemsBlocks_append itemsBlocks_Cons s_def i_def)
next
  assume ne: "trim childText \<noteq> []"
  show "listBlocks (ListToken cOrdered cStart (cPre @ ListItem childText childTokens # cPost))
          (Suc lvl) []
        = itemsBlocks cOrdered s (Suc lvl) [] cPre
          @ Paragraph (createListItemParagraph childText
              (Suc lvl) cOrdered (if cOrdered then Some i else None))
          # itemTokensBlocks (Suc (Suc lvl))
              (if cOrdered then numberToString i @ js ''. '' else []) childTokens
          @ itemsBlocks cOrdered (if cOrdered then Suc i else i) (Suc lvl) [] cPost"
    using ne
    by (cases cOrdered)
      (simp_all add: listBlocks_ListToken itemsBlocks_append itemsBlocks_Cons s_def i_def)
qed

theorem nested_list_marker_witness:
  "startsWith (js ''1. foo'') (numberToString 1 @ js ''. '')
   \<and> listBlocks (ListToken False None [ListItem (js ''1. foo'') []]) 1 (js ''1. '')
       = [Paragraph (createListItemParagraph (js ''foo'') 1 False None)]
   \<and> trim ([0x2022, 32] @ js ''x'') \<noteq> []
   \<and> listBlocks (ListToken False None [ListItem ([0x2022, 32] @ js ''x'') []]) 1 []
       = [Paragraph (createListItemParagraph ([0x2022, 32] @ js ''x'') 1 False None)]"
proof -
  have ns: "numberToString (Suc 0) = [49]"
    by (simp add: numberToString.simps)
  show ?thesis
    using
      nested_list_marker [where n = 1 and lvl = 0 and cOrdered = False and cStart = None
        and cPre = "[]" and cPost = "[]" and childTokens = "[]" and childText = "js ''1. foo''"]
      nested_list_marker [where lvl = 0 and cOrdered = False and cStart = None
        and cPre = "[]" and cPost = "[]" and childTokens = "[]"
        and childText = "[0x2022, 32] @ js ''x''"]
    by (simp add: ns js_def trim_def substring_def startsWith_def isWhiteSpace_def
        itemsBlocks_Nil itemTokensBlocks_Nil)
qed

section \<open>Properties of the block renderer\<close>

text \<open>
  Claim C6. A heading of depth 1 resolves to the title style \<^verbatim>\<open>h1\<close>, of depth 2 to the
  section style \<^verbatim>\<open>h2\<close>, of depth 3 to the bold body style \<^verbatim>\<open>h3\<close>, and of any depth
  from 4 on to the body style \<^verbatim>\<open>normal\<close>.
\<close>

theorem getHeadingStyle_routing:
  "getHeadingStyle 1 = STYLES_h1 \<and> getHeadingStyle 2 = STYLES_h2
   \<and> getHeadingStyle 3 = STYLES_h3 \<and> (\<forall>depth\<ge>4. getHeadingStyle depth = STYLES_normal)"
  by (simp add: getHeadingStyle_def)

theorem getHeadingStyle_routing_witness:
  "(4::nat) \<le> 6 \<and> getHeadingStyle 6 = STYLES_normal"
  using getHeadingStyle_routing by simp

text \<open>
  The end-to-end case. The tokenizer is external; for the text below it returns a
  heading of depth 1 with the text \<^verbatim>\<open>Title\<close> and a paragraph with the text
  \<^verbatim>\<open>Hello **world**.\<close>, which is what the theorems take it to return.
\<close>

lemma preprocessMarkdown_title_hello:
  "preprocessMarkdown (js ''# Title\<newline>\<newline>Hello **world**.\<newline>'')
     = js ''# Title\<newline>\<newline>Hello **world**.\<newline>''"
  by (simp add: normalizer_eval)

lemma parseInlineContent_hello:
  "\<exists>ra rb rc. parseInlineContent (js ''Hello **world**.'') = [ra, rb, rc]
     \<and> run_bold rb = Some True \<and> run_text rb = Some (js ''world'')"
  by (simp add: inline_eval)

lemma renderTokens_title_hello:
  "\<exists>spacer title body ra rb rc.
     renderTokens [] [TokHeading 1 (js ''Title''), TokParagraph (js ''Hello **world**.'')]
       = [Paragraph spacer, Paragraph title, Paragraph body]
     \<and> par_children spacer = []
     \<and> par_heading title = Some HEADING_1
     \<and> par_children title =
         [emptyRun\<lparr>run_text := Some (js ''Title''),
                   run_font := Some (style_font STYLES_h1),
                   run_size := Some (style_size STYLES_h1),
                   run_color := Some (js ''000000'')\<rparr>]
     \<and> par_children body = [ra, rb, rc]
     \<and> run_bold rb = Some True \<and> run_text rb = Some (js ''world'')"
proof -
  obtain ra rb rc where r: "parseInlineContent (js ''Hello **world**.'') = [ra, rb, rc]"
    and rb: "run_bold rb = Some True" "run_text rb = Some (js ''world'')"
    using parseInlineContent_hello by blast
  have "\<exists>spacer title body.
     renderTokens [] [TokHeading 1 (js ''Title''), TokParagraph (js ''Hello **world**.'')]
       = [Paragraph spacer, Paragraph title, Paragraph body]
     \<and> par_children spacer = []
     \<and> par_heading title = Some HEADING_1
     \<and> par_children title =
         [emptyRun\<lparr>run_text := Some (js ''Title''),
                   run_font := Some (style_font STYLES_h1),
                   run_size := Some (style_size STYLES_h1),
                   run_color := Some (js ''000000'')\<rparr>]
     \<and> par_children body = [ra, rb, rc]"
    by (simp add: r getHeadingStyle_def headingMap_def emptyParagraph_def emptyRun_def
        STYLES_h1_def Let_def)
  then show ?thesis using rb by blast
qed

lemma createWordDoc_lexed:
  assumes "marked_lexer e (preprocessMarkdown markdown) = Inr tokens"
  shows "createWordDoc e markdown log
     = (Inr (Document [renderTokens [] tokens]),
        log @ [MarkedUse, MarkedLexer (preprocessMarkdown markdown)])"
  using assms by (simp add: createWordDoc_def Let_def)

text \<open>
  Claim C1, as stated, fails. The document does not have exactly two blocks: a heading of
  depth 1 is preceded by a spacer paragraph.
\<close>

theorem title_hello_not_two_blocks:
  "\<not> (\<exists>blocks.
        fst (createWordDoc
               (stubEnv []
                  [(js ''# Title\<newline>\<newline>Hello **world**.\<newline>'',
                    [TokHeading 1 (js ''Title''), TokParagraph (js ''Hello **world**.'')])])
               (js ''# Title\<newline>\<newline>Hello **world**.\<newline>'') [])
          = Inr (Document [blocks])
        \<and> length blocks = 2)"
proof -
  have l: "marked_lexer
       (stubEnv []
          [(js ''# Title\<newline>\<newline>Hello **world**.\<newline>'',
            [TokHeading 1 (js ''Title''), TokParagraph (js ''Hello **world**.'')])])
       (preprocessMarkdown (js ''# Title\<newline>\<newline>Hello **world**.\<newline>''))
     = Inr [TokHeading 1 (js ''Title''), TokParagraph (js ''Hello **world**.'')]"
    by (simp add: preprocessMarkdown_title_hello stubEnv_def)
  obtain spacer title body where rt:
    "renderTokens [] [TokHeading 1 (js ''Title''), TokParagraph (js ''Hello **world**.'')]
       = [Paragraph spacer, Paragraph title, Paragraph body]"
    using renderTokens_title_hello by blast
  have cw: "fst (createWordDoc
               (stubEnv []
                  [(js ''# Title\<newline>\<newline>Hello **world**.\<newline>'',
                    [TokHeading 1 (js ''Title''), TokParagraph (js ''Hello **world**.'')])])
               (js ''# Title\<newline>\<newline>Hello **world**.\<newline>'') [])
          = Inr (Document [[Paragraph spacer, Paragraph title, Paragraph body]])"
    by (simp only: createWordDoc_lexed [OF l] rt fst_conv)
  show ?thesis
    unfolding cw by simp
qed

text \<open>
  Claim C1, amended. Converting the text gives one section of exactly three blocks: an
  empty spacer paragraph, the heading paragraph whose single run is \<^verbatim>\<open>Title\<close> in the
  title style, and a body paragraph of three runs whose second run is bold and has the
  text \<^verbatim>\<open>world\<close>. The only calls to the collaborators are the tokenizer's.
\<close>

theorem createWordDoc_title_hello:
  assumes "marked_lexer e (js ''# Title\<newline>\<newline>Hello **world**.\<newline>'')
             = Inr [TokHeading 1 (js ''Title''), TokParagraph (js ''Hello **world**.'')]"
  shows "\<exists>spacer title body ra rb rc.
     createWordDoc e (js ''# Title\<newline>\<newline>Hello **world**.\<newline>'') log
       = (Inr (Document [[Paragraph spacer, Paragraph title, Paragraph body]]),
          log @ [MarkedUse, MarkedLexer (js ''# Title\<newline>\<newline>Hello **world**.\<newline>'')])
     \<and> par_children spacer = []
     \<and> par_heading title = Some HEADING_1
     \<and> par_children title =
         [emptyRun\<lparr>run_text := Some (js ''Title''),
                   run_font := Some (style_font STYLES_h1),
                   run_size := Some (style_size STYLES_h1),
                   run_color := Some (js ''000000'')\<rparr>]
     \<and> par_children body = [ra, rb, rc]
     \<and> run_bold rb = Some True \<and> run_text rb = Some (js ''world'')"
proof -
  have "createWordDoc e (js ''# Title\<newline>\<newline>Hello **world**.\<newline>'') log
       = (Inr (Document [renderTokens []
                [TokHeading 1 (js ''Title''), TokParagraph (js ''Hello **world**.'')]]),
          log @ [MarkedUse, MarkedLexer (js ''# Title\<newline>\<newline>Hello **world**.\<newline>'')])"
    using createWordDoc_lexed [of e "js ''# Title\<newline>\<newline>Hello **world**.\<newline>''"] assms
    by (simp only: preprocessMarkdown_title_hello)
  then show ?thesis
    using renderTokens_title_hello by force
qed

theorem createWordDoc_title_hello_witness:
  "marked_lexer
       (stubEnv []
          [(js ''# Title\<newline>\<newline>Hello **world**.\<newline>'',
            [TokHeading 1 (js ''Title''), TokParagraph (js ''Hello **world**.'')])])
       (js ''# Title\<newline>\<newline>Hello **world**.\<newline>'')
     = Inr [TokHeading 1 (js ''Title''), TokParagraph (js ''Hello **world**.'')]
   \<and> (\<exists>spacer title body ra rb rc.
     createWordDoc
       (stubEnv []
          [(js ''# Title\<newline>\<newline>Hello **world**.\<newline>'',
            [TokHeading 1 (js ''Title''), TokParagraph (js ''Hello **world**.'')])])
       (js ''# Title\<newline>\<newline>Hello **world**.\<newline>'') []
       = (Inr (Document [[Paragraph spacer, Paragraph title, Paragraph body]]),
          [MarkedUse, MarkedLexer (js ''# Title\<newline>\<newline>Hello **world**.\<newline>'')])
     \<and> par_children spacer = []
     \<and> par_heading title = Some HEADING_1
     \<and> par_children title =
         [emptyRun\<lparr>run_text := Some (js ''Title''),
                   run_font := Some (style_font STYLES_h1),
                   run_size := Some (style_size STYLES_h1),
                   run_color := Some (js ''000000'')\<rparr>]
     \<and> par_children body = [ra, rb, rc]
     \<and> run_bold rb = Some True \<and> run_text rb = Some (js ''world''))"
proof -
  have l: "marked_lexer
       (stubEnv []
          [(js ''# Title\<newline>\<newline>Hello **world**.\<newline>'',
            [TokHeading 1 (js ''Title''), TokParagraph (js ''Hello **world**.'')])])
       (js ''# Title\<newline>\<newline>Hello **world**.\<newline>'')
     = Inr [TokHeading 1 (js ''Title''), TokParagraph (js ''Hello **world**.'')]"
    by (simp add: stubEnv_def)
  show ?thesis
    using l createWordDoc_title_hello [OF l, of "[]"] by simp
qed

section \<open>Properties of the two operations\<close>

lemma preprocessMarkdown_Nil: "preprocessMarkdown [] = []"
  by (simp add: preprocessMarkdown_def preprocessLine_def trim_def mainListMatch_def
      nestedDashMatch_def Let_def)

lemma saveWordDocument_stubEnv:
  "saveWordDocument (stubEnv files lexed) doc out log
     = (Inr (), log @ [PackerToBuffer doc, Mkdir (js ''.''), WriteFile out [80, 75]])"
  by (simp add: saveWordDocument_def stubEnv_def)




text \<open>
  Claim C10, as stated, fails in its last part. An empty markdown document is converted
  by convert-from-file when the source path names a file whose content is empty: the
  test for a missing argument is on the path, not on the text read.
\<close>

theorem empty_file_is_converted:
  "handleMarkdownToWord (stubEnv [(js ''empty.md'', [])] [([], [])])
      (Some \<lparr>markdownPath = Some (js ''empty.md''), outputPath = Some (js ''empty.docx'')\<rparr>)
      []
     = (Inr (ToolText (msgConverted @ js ''empty.docx'')),
        [ReadFile (js ''empty.md''), MarkedUse, MarkedLexer [],
         PackerToBuffer (Document [[]]), Mkdir (js ''.''),
         WriteFile (js ''empty.docx'') [80, 75]])"
proof -
  have c: "createWordDoc (stubEnv [(js ''empty.md'', [])] [([], [])]) [] log
        = (Inr (Document [[]]), log @ [MarkedUse, MarkedLexer []])" for log
    by (simp add: createWordDoc_def preprocessMarkdown_Nil stubEnv_def)
  have r: "fs_readFile (stubEnv [(js ''empty.md'', [])] [([], [])]) (js ''empty.md'') = Inr []"
    by (simp add: stubEnv_def)
  have f: "\<not> falsy (Some (js ''empty.md''))" "\<not> falsy (Some (js ''empty.docx''))"
    by (simp_all add: falsy_def js_def)
  show ?thesis
    by (simp add: f r c saveWordDocument_stubEnv Let_def)
qed

text \<open>
  Claim C10, amended. An argument that is the empty string is treated as a missing one by
  both operations: the call fails with \<open>InvalidParams\<close>, the log of calls to the
  collaborators is returned as it was, and the result is the one for the argument being
  absent. So convert-from-content never converts an empty markdown text. (What
  convert-from-file does with a file whose content is empty is not part of this
  statement.)
\<close>

theorem empty_argument_InvalidParams:
  "(markdownPath args = Some [] \<or> outputPath args = Some [] \<longrightarrow>
      handleMarkdownToWord e (Some args) log
        = (Inl (Mcp (McpError InvalidParams msgMissingParams)), log))
   \<and> (content wargs = Some [] \<or> outputPathW wargs = Some [] \<longrightarrow>
      handleWriteMarkdownToWord e (Some wargs) log
        = (Inl (Mcp (McpError InvalidParams msgMissingParams)), log))
   \<and> handleMarkdownToWord e (Some (args\<lparr>markdownPath := Some []\<rparr>)) log
       = handleMarkdownToWord e (Some (args\<lparr>markdownPath := None\<rparr>)) log
   \<and> handleMarkdownToWord e (Some (args\<lparr>outputPath := Some []\<rparr>)) log
       = handleMarkdownToWord e (Some (args\<lparr>outputPath := None\<rparr>)) log
   \<and> handleWriteMarkdownToWord e (Some (wargs\<lparr>content := Some []\<rparr>)) log
       = handleWriteMarkdownToWord e (Some (wargs\<lparr>content := None\<rparr>)) log
   \<and> handleWriteMarkdownToWord e (Some (wargs\<lparr>outputPathW := Some []\<rparr>)) log
       = handleWriteMarkdownToWord e (Some (wargs\<lparr>outputPathW := None\<rparr>)) log
   \<and> (\<forall>res log'. handleWriteMarkdownToWord e (Some wargs) log = (Inr res, log') \<longrightarrow>
        (\<exists>text. content wargs = Some text \<and> text \<noteq> []))
   \<and> (\<forall>res log'. callTool e (js ''write_markdown_to_word'') (Some obj) log = (Inr res, log')
        \<longrightarrow> (\<exists>text. obj (js ''content'') = Some text \<and> text \<noteq> []))
   \<and> (obj (js ''markdownPath'') = Some [] \<or> obj (js ''outputPath'') = Some [] \<longrightarrow>
      callTool e (js ''markdown_to_word'') (Some obj) log
        = (Inl (McpError InvalidParams msgMissingParams), log))
   \<and> (obj (js ''content'') = Some [] \<or> obj (js ''outputPath'') = Some [] \<longrightarrow>
      callTool e (js ''write_markdown_to_word'') (Some obj) log
        = (Inl (McpError InvalidParams msgMissingParams), log))"
proof -
  have ne: "js ''write_markdown_to_word'' \<noteq> js ''markdown_to_word''"
    by (simp add: js_def)
  have w: "\<exists>text. content wa = Some text \<and> text \<noteq> []"
    if "handleWriteMarkdownToWord e (Some wa) log = (Inr res, log')" for wa res log'
    using that by (auto simp add: falsy_def split: option.splits if_splits)
  have cw: "\<exists>text. obj (js ''content'') = Some text \<and> text \<noteq> []"
    if c: "callTool e (js ''write_markdown_to_word'') (Some obj) log = (Inr res, log')"
    for res log'
  proof -
    obtain r l where h: "handleWriteMarkdownToWord e (Some (asWriteMarkdownToWordArgs obj)) log
        = (r, l)"
      by (cases "handleWriteMarkdownToWord e (Some (asWriteMarkdownToWordArgs obj)) log")
    with c ne have "r = Inr res"
      by (auto simp add: callTool_def split: sum.splits thrown.splits)
    with h w [of "asWriteMarkdownToWordArgs obj" res l] show ?thesis
      by (simp add: asWriteMarkdownToWordArgs_def)
  qed
  show ?thesis
    using w cw ne
    by (auto simp add: falsy_def callTool_def asMarkdownToWordArgs_def
        asWriteMarkdownToWordArgs_def)
qed

theorem empty_argument_InvalidParams_witness:
  "handleMarkdownToWord (stubEnv [] [(js ''hi'', [])])
      (Some \<lparr>markdownPath = Some [], outputPath = Some (js ''a.docx'')\<rparr>) []
     = (Inl (Mcp (McpError InvalidParams msgMissingParams)), [])
   \<and> handleWriteMarkdownToWord (stubEnv [] [(js ''hi'', [])])
      (Some \<lparr>content = Some [], outputPathW = Some (js ''a.docx'')\<rparr>) []
     = (Inl (Mcp (McpError InvalidParams msgMissingParams)), [])
   \<and> handleWriteMarkdownToWord (stubEnv [] [(js ''hi'', [])])
      (Some \<lparr>content = Some (js ''hi''), outputPathW = Some (js ''a.docx'')\<rparr>) []
     = (Inr (ToolText (msgCreated @ js ''a.docx'')),
        [MarkedUse, MarkedLexer (js ''hi''), PackerToBuffer (Document [[]]), Mkdir (js ''.''),
         WriteFile (js ''a.docx'') [80, 75]])
   \<and> (\<exists>text. content \<lparr>content = Some (js ''hi''), outputPathW = Some (js ''a.docx'')\<rparr>
                  = Some text \<and> text \<noteq> [])"
proof -
  have p: "preprocessMarkdown (js ''hi'') = js ''hi''"
    by (simp add: normalizer_eval)
  have c: "createWordDoc (stubEnv [] [(js ''hi'', [])]) (js ''hi'') log
        = (Inr (Document [[]]), log @ [MarkedUse, MarkedLexer (js ''hi'')])" for log
    by (simp add: createWordDoc_def p stubEnv_def)
  have f: "\<not> falsy (Some (js ''hi''))" "\<not> falsy (Some (js ''a.docx''))"
    by (simp_all add: falsy_def js_def)
  have ok: "handleWriteMarkdownToWord (stubEnv [] [(js ''hi'', [])])
      (Some \<lparr>content = Some (js ''hi''), outputPathW = Some (js ''a.docx'')\<rparr>) []
     = (Inr (ToolText (msgCreated @ js ''a.docx'')),
        [MarkedUse, MarkedLexer (js ''hi''), PackerToBuffer (Document [[]]), Mkdir (js ''.''),
         WriteFile (js ''a.docx'') [80, 75]])"
    by (simp add: f c saveWordDocument_stubEnv Let_def)
  show ?thesis
    using ok
      empty_argument_InvalidParams
        [where e = "stubEnv [] [(js ''hi'', [])]" and log = "[]"
           and args = "\<lparr>markdownPath = Some [], outputPath = Some (js ''a.docx'')\<rparr>"
           and wargs = "\<lparr>content = Some [], outputPathW = Some (js ''a.docx'')\<rparr>"]
      empty_argument_InvalidParams
        [where e = "stubEnv [] [(js ''hi'', [])]" and log = "[]"
           and wargs = "\<lparr>content = Some (js ''hi''), outputPathW = Some (js ''a.docx'')\<rparr>"]
    by simp
qed

end
